theory Spec2Isabelle
  imports Main
begin

section \<open>JavaScript values and strings\<close>

text \<open>
  A \<open>number\<close> is a double. \<open>Integer n\<close> is the integer-valued number
  \<open>n\<close> of magnitude below \<open>10^21\<close> (both zeros are \<open>Integer 0\<close>),
  \<open>NaN\<close> is not-a-number, and every other number (a fraction, a magnitude from
  \<open>10^21\<close> on, an infinity) is \<open>Other s\<close>, where \<open>s\<close> is the text
  that \<open>toString\<close> gives for it. \<open>is_number\<close> holds of the values that
  stand for a number in this way. An HTTP status is an integer.
\<close>

datatype number = Integer int | NaN | Other string

definition is_number :: "number \<Rightarrow> bool" where
  "is_number x =
     (case x of Integer n \<Rightarrow> \<bar>n\<bar> < 10 ^ 21 | NaN \<Rightarrow> True | Other s \<Rightarrow> s \<noteq> [])"

text \<open>
  Truthiness of a number: zero and \<open>NaN\<close> are falsy, every other number is
  truthy.
\<close>

fun number_truthy :: "number \<Rightarrow> bool" where
  "number_truthy (Integer n) = (n \<noteq> 0)"
| "number_truthy NaN = False"
| "number_truthy (Other s) = True"

text \<open>
  \<open>Number.prototype.toString()\<close>, which a template literal applies too: the decimal
  digits of an integer below \<open>10^21\<close>, with a minus sign when it is negative.
\<close>

definition digit_char :: "nat \<Rightarrow> char" where
  "digit_char d = ''0123456789'' ! d"

fun digits :: "nat \<Rightarrow> string" where
  "digits n = (if n < 10 then [digit_char n] else digits (n div 10) @ [digit_char (n mod 10)])"

declare digits.simps [simp del]

fun Number_toString :: "number \<Rightarrow> string" where
  "Number_toString (Integer n) =
     (if n < 0 then CHR ''-'' # digits (nat (- n)) else digits (nat n))"
| "Number_toString NaN = ''NaN''"
| "Number_toString (Other s) = s"

text \<open>
  The client is TypeScript; its types are erased at run time, and the response body
  \<open>data\<close> has type \<open>any\<close>. A body is therefore modelled as a JavaScript value:
  the result of parsing JSON, a raw string, or \<open>undefined\<close>. A string is a list
  of bytes (its UTF-8 encoding). An object lists its own properties; the first binding
  of a key gives the property's value.
\<close>

datatype jsvalue =
    JUndefined
  | JNull
  | JBool bool
  | JNumber number
  | JString string
  | JArray "jsvalue list"
  | JObject "(string \<times> jsvalue) list"

text \<open>Truthiness, as \<open>if (x)\<close> and \<open>x || y\<close> decide it.\<close>

fun truthy :: "jsvalue \<Rightarrow> bool" where
  "truthy JUndefined = False"
| "truthy JNull = False"
| "truthy (JBool b) = b"
| "truthy (JNumber n) = number_truthy n"
| "truthy (JString s) = (s \<noteq> [])"
| "truthy (JArray xs) = True"
| "truthy (JObject kvs) = True"

text \<open>\<open>a || b\<close>\<close>

definition js_or :: "jsvalue \<Rightarrow> jsvalue \<Rightarrow> jsvalue" where
  "js_or a b = (if truthy a then a else b)"

text \<open>
  \<open>(data as any)?.message\<close>: \<open>undefined\<close> for \<open>null\<close> and
  \<open>undefined\<close> (optional chaining), the property for an object, and
  \<open>undefined\<close> for every value that has no such property.
\<close>

fun optional_message :: "jsvalue \<Rightarrow> jsvalue" where
  "optional_message (JObject kvs) =
     (case map_of kvs ''message'' of None \<Rightarrow> JUndefined | Some v \<Rightarrow> v)"
| "optional_message v = JUndefined"

text \<open>\<open>Array.prototype.join\<close> with a separator.\<close>

fun join :: "string \<Rightarrow> string list \<Rightarrow> string" where
  "join sep [] = []"
| "join sep [x] = x"
| "join sep (x # y # ys) = x @ sep @ join sep (y # ys)"

text \<open>
  The exception the run time throws when a value is used as what it is not: calling
  \<open>toLowerCase\<close> on a value that is not a string, and converting to a string an
  object that has no usable \<open>toString\<close>. Nothing in the client catches it.
\<close>

datatype js_exception = TypeError

text \<open>
  The conversion of a value to a string that the \<open>Error\<close> constructor applies to its
  message. An array joins the conversions of its elements with commas, \<open>null\<close>
  and \<open>undefined\<close> elements giving the empty string. An object without an own
  \<open>toString\<close> property inherits the one that gives \<open>[object Object]\<close>. An
  own \<open>toString\<close> property of a parsed body is never a function, and then neither
  it nor \<open>valueOf\<close> yields a primitive value: the conversion throws. The
  conversion of an array throws when that of an element does.
\<close>

fun ToString :: "jsvalue \<Rightarrow> js_exception + string"
  and ToString_elements :: "jsvalue list \<Rightarrow> js_exception + string list" where
  "ToString JUndefined = Inr ''undefined''"
| "ToString JNull = Inr ''null''"
| "ToString (JBool b) = Inr (if b then ''true'' else ''false'')"
| "ToString (JNumber n) = Inr (Number_toString n)"
| "ToString (JString s) = Inr s"
| "ToString (JArray xs) =
     (case ToString_elements xs of
        Inl ex \<Rightarrow> Inl ex
      | Inr ss \<Rightarrow> Inr (join '','' ss))"
| "ToString (JObject kvs) =
     (if ''toString'' \<in> fst ` set kvs then Inl TypeError else Inr ''[object Object]'')"
| "ToString_elements [] = Inr []"
| "ToString_elements (x # xs) =
     (case (if x = JUndefined \<or> x = JNull then Inr [] else ToString x) of
        Inl ex \<Rightarrow> Inl ex
      | Inr s \<Rightarrow>
          (case ToString_elements xs of
             Inl ex \<Rightarrow> Inl ex
           | Inr ss \<Rightarrow> Inr (s # ss)))"

text \<open>
  \<open>String.prototype.toLowerCase\<close>, on the letters A to Z. Bytes outside ASCII are
  left as they are; the client only searches the result for ASCII text.
\<close>

definition lower_char :: "char \<Rightarrow> char" where
  "lower_char c =
     (case map_of (zip ''ABCDEFGHIJKLMNOPQRSTUVWXYZ'' ''abcdefghijklmnopqrstuvwxyz'') c of
        None \<Rightarrow> c | Some l \<Rightarrow> l)"

definition toLowerCase :: "string \<Rightarrow> string" where
  "toLowerCase s = map lower_char s"

text \<open>\<open>String.prototype.includes\<close>: \<open>js_includes s t\<close> is \<open>s.includes(t)\<close>.\<close>

definition startsWith :: "string \<Rightarrow> string \<Rightarrow> bool" where
  "startsWith s t = (take (length t) s = t)"

fun js_includes :: "string \<Rightarrow> string \<Rightarrow> bool" where
  "js_includes [] t = (t = [])"
| "js_includes (c # cs) t = (if startsWith (c # cs) t then True else js_includes cs t)"

section \<open>Responses and errors of the HTTP library\<close>

text \<open>
  A response has a status and a body. What the library hands to the error interceptor is
  an error with a message and, when a response was received, that response.
\<close>

record AxiosResponse =
  status :: int
  data :: jsvalue

record AxiosError =
  message :: string
  response :: "AxiosResponse option"

section \<open>The error taxonomy (errors.ts)\<close>

text \<open>
  An error object of the taxonomy: the class is read off \<open>name\<close>, which every
  constructor sets to its class name. \<open>statusCode\<close> is optional;
  an absent \<open>response\<close> is \<open>undefined\<close>.
\<close>

record FiveSimError =
  name :: string
  message :: string
  statusCode :: "int option"
  response :: jsvalue

text \<open>
  \<open>new FiveSimError(message, statusCode, response)\<close>. The message goes through
  \<open>super(message)\<close>, the \<open>Error\<close> constructor, which converts it to a
  string unless it is \<open>undefined\<close>; when that conversion throws, so does the
  constructor.
\<close>

definition new_FiveSimError ::
  "jsvalue \<Rightarrow> int option \<Rightarrow> jsvalue \<Rightarrow> js_exception + FiveSimError" where
  "new_FiveSimError msg code resp =
     (case (if msg = JUndefined then Inr [] else ToString msg) of
        Inl ex \<Rightarrow> Inl ex
      | Inr m \<Rightarrow>
          Inr \<lparr>name = ''FiveSimError'', message = m, statusCode = code, response = resp\<rparr>)"

text \<open>
  A subclass constructor takes an optional message with a default text, passes it with a
  fixed status code and no response to the base constructor, and then sets its own name.
\<close>

definition new_subclass ::
  "string \<Rightarrow> string \<Rightarrow> int \<Rightarrow> string option \<Rightarrow> js_exception + FiveSimError" where
  "new_subclass class_name default_message code msg =
     (case new_FiveSimError
             (JString (case msg of None \<Rightarrow> default_message | Some m \<Rightarrow> m))
             (Some code) JUndefined of
        Inl ex \<Rightarrow> Inl ex
      | Inr e \<Rightarrow> Inr (e\<lparr>name := class_name\<rparr>))"

definition new_AuthenticationError :: "string option \<Rightarrow> js_exception + FiveSimError" where
  "new_AuthenticationError =
     new_subclass ''AuthenticationError'' ''Invalid or missing API key'' 401"

definition new_RateLimitError :: "string option \<Rightarrow> js_exception + FiveSimError" where
  "new_RateLimitError =
     new_subclass ''RateLimitError''
       ''Rate limit exceeded. Please wait before making more requests.'' 429"

definition new_ServiceUnavailableError :: "string option \<Rightarrow> js_exception + FiveSimError" where
  "new_ServiceUnavailableError =
     new_subclass ''ServiceUnavailableError''
       ''Service temporarily unavailable. Server-side limits reached.'' 503"

definition new_NoNumbersError :: "string option \<Rightarrow> js_exception + FiveSimError" where
  "new_NoNumbersError =
     new_subclass ''NoNumbersError''
       ''No numbers available for the requested service/country/operator'' 400"

section \<open>Classifying a failed request (client.ts, handleError)\<close>

text \<open>
  \<open>body_message dflt d\<close>, for the body \<open>d\<close> bound to \<open>data\<close>, is
  \<open>typeof data === 'string' ? data : (data as any)?.message || dflt\<close>: the
  conditional binds weaker than \<open>||\<close>, so a string body is taken as it is, also
  when it is empty.
\<close>

definition body_message :: "string \<Rightarrow> jsvalue \<Rightarrow> jsvalue" where
  "body_message dflt d =
     (case d of
        JString s \<Rightarrow> d
      | _ \<Rightarrow> js_or (optional_message d) (JString dflt))"

text \<open>
  \<open>handleError\<close> returns an error of the taxonomy (\<open>Inr\<close>) or throws
  (\<open>Inl\<close>): in the branch for 400, \<open>message.toLowerCase()\<close> throws when
  \<open>message\<close> is not a string, and in each branch the constructor may throw.
\<close>

definition handleError :: "AxiosError \<Rightarrow> js_exception + FiveSimError" where
  "handleError error =
     (case AxiosError.response error of
        None \<Rightarrow>
          new_FiveSimError
            (js_or (JString (AxiosError.message error)) (JString ''Network error''))
            None JUndefined
      | Some resp \<Rightarrow>
          (if status resp = 401 then new_AuthenticationError None
           else if status resp = 429 then new_RateLimitError None
           else if status resp = 503 then new_ServiceUnavailableError None
           else if status resp = 400 then
             (case body_message [] (data resp) of
                JString m \<Rightarrow>
                  (if js_includes (toLowerCase m) ''no''
                      \<or> js_includes (toLowerCase m) ''not available''
                   then new_NoNumbersError (Some m)
                   else new_FiveSimError
                          (js_or (JString m) (JString ''Bad request''))
                          (Some (status resp)) (data resp))
              | _ \<Rightarrow> Inl TypeError)
           else
             new_FiveSimError
               (body_message ''Unknown error'' (data resp))
               (Some (status resp)) (data resp)))"

section \<open>Query strings (URLSearchParams)\<close>

text \<open>
  \<open>URLSearchParams\<close> is an ordered list of name/value pairs; \<open>append\<close> adds
  a pair at the end. \<open>toString\<close> is the form-urlencoded serialisation: letters,
  digits and \<open>* - . _\<close> stand for themselves, a space becomes \<open>+\<close>, and
  every other byte is written as \<open>%\<close> and two upper-case hexadecimal digits; a
  name and its value are joined by \<open>=\<close> and the pairs by \<open>&\<close>.
\<close>

type_synonym URLSearchParams = "(string \<times> string) list"

definition new_URLSearchParams :: URLSearchParams where
  "new_URLSearchParams = []"

definition URLSearchParams_append :: "URLSearchParams \<Rightarrow> string \<Rightarrow> string \<Rightarrow> URLSearchParams" where
  "URLSearchParams_append params k v = params @ [(k, v)]"

definition urlencoded_plain :: string where
  "urlencoded_plain =
     ''abcdefghijklmnopqrstuvwxyzABCDEFGHIJKLMNOPQRSTUVWXYZ0123456789*-._''"

definition hex_char :: "nat \<Rightarrow> char" where
  "hex_char d = ''0123456789ABCDEF'' ! d"

definition urlencode_byte :: "char \<Rightarrow> string" where
  "urlencode_byte c =
     (if c \<in> set urlencoded_plain then [c]
      else if c = CHR '' '' then ''+''
      else [CHR ''%'', hex_char (of_char c div 16), hex_char (of_char c mod 16)])"

definition urlencode :: "string \<Rightarrow> string" where
  "urlencode s = concat (map urlencode_byte s)"

definition URLSearchParams_toString :: "URLSearchParams \<Rightarrow> string" where
  "URLSearchParams_toString params =
     join ''&'' (map (\<lambda>(k, v). urlencode k @ ''='' @ urlencode v) params)"

text \<open>
  \<open>with_query path params\<close> is the template
  \<open>`path${queryString ? `?${queryString}` : ''}`\<close> that three operations share.
\<close>

definition with_query :: "string \<Rightarrow> URLSearchParams \<Rightarrow> string" where
  "with_query path params =
     (let queryString = URLSearchParams_toString params
      in path @ (if queryString \<noteq> [] then ''?'' @ queryString else []))"

section \<open>Options of the operations (types.ts)\<close>

datatype OrderCategory = HOSTING | ACTIVATION

text \<open>The string an enumeration member stands for at run time.\<close>

fun OrderCategory_value :: "OrderCategory \<Rightarrow> string" where
  "OrderCategory_value HOSTING = ''hosting''"
| "OrderCategory_value ACTIVATION = ''activation''"

record OrderHistoryOptions =
  category :: "OrderCategory option"
  limit :: "number option"
  offset :: "number option"

record GetPricesOptions =
  prices_country :: "string option"
  prices_product :: "string option"

record BuyActivationOptions =
  country :: string
  operator :: string
  product :: string
  forwarding :: "string option"

record BuyHostingOptions =
  hosting_country :: string
  hosting_operator :: string
  hosting_product :: string

section \<open>The URL of each operation (client.ts)\<close>

text \<open>
  \<open>options?.category\<close> and its siblings: \<open>undefined\<close> when the options are
  absent. The conditions are the source's: truthiness for \<open>category\<close> and
  \<open>limit\<close>, \<open>!== undefined\<close> for \<open>offset\<close>.
\<close>

definition getOrderHistory_params :: "OrderHistoryOptions option \<Rightarrow> URLSearchParams" where
  "getOrderHistory_params options =
     (let params = new_URLSearchParams;
          params =
            (case Option.bind options category of
               Some c \<Rightarrow>
                 if OrderCategory_value c \<noteq> []
                 then URLSearchParams_append params ''category'' (OrderCategory_value c) else params
             | None \<Rightarrow> params);
          params =
            (case Option.bind options limit of
               Some n \<Rightarrow>
                 if number_truthy n
                 then URLSearchParams_append params ''limit'' (Number_toString n) else params
             | None \<Rightarrow> params);
          params =
            (case Option.bind options offset of
               Some n \<Rightarrow> URLSearchParams_append params ''offset'' (Number_toString n)
             | None \<Rightarrow> params)
      in params)"

definition getOrderHistory_url :: "OrderHistoryOptions option \<Rightarrow> string" where
  "getOrderHistory_url options = with_query ''/user/orders'' (getOrderHistory_params options)"

definition getProducts_url :: "string \<Rightarrow> string \<Rightarrow> string" where
  "getProducts_url c opr = ''/guest/products/'' @ c @ ''/'' @ opr"

definition getPrices_params :: "GetPricesOptions option \<Rightarrow> URLSearchParams" where
  "getPrices_params options =
     (let params = new_URLSearchParams;
          params =
            (case Option.bind options prices_country of
               Some c \<Rightarrow> if c \<noteq> [] then URLSearchParams_append params ''country'' c else params
             | None \<Rightarrow> params);
          params =
            (case Option.bind options prices_product of
               Some p \<Rightarrow> if p \<noteq> [] then URLSearchParams_append params ''product'' p else params
             | None \<Rightarrow> params)
      in params)"

definition getPrices_url :: "GetPricesOptions option \<Rightarrow> string" where
  "getPrices_url options = with_query ''/guest/prices'' (getPrices_params options)"

definition buyActivation_path :: "BuyActivationOptions \<Rightarrow> string" where
  "buyActivation_path options =
     ''/user/buy/activation/'' @ country options @ ''/'' @ operator options
       @ ''/'' @ product options"

definition buyActivation_params :: "BuyActivationOptions \<Rightarrow> URLSearchParams" where
  "buyActivation_params options =
     (let params = new_URLSearchParams
      in case forwarding options of
           Some f \<Rightarrow> if f \<noteq> [] then URLSearchParams_append params ''forwarding'' ''1'' else params
         | None \<Rightarrow> params)"

definition buyActivation_url :: "BuyActivationOptions \<Rightarrow> string" where
  "buyActivation_url options = with_query (buyActivation_path options) (buyActivation_params options)"

definition buyHosting_url :: "BuyHostingOptions \<Rightarrow> string" where
  "buyHosting_url options =
     ''/user/buy/hosting/'' @ hosting_country options @ ''/'' @ hosting_operator options
       @ ''/'' @ hosting_product options"

definition checkOrder_url :: "number \<Rightarrow> string" where
  "checkOrder_url n = ''/user/check/'' @ Number_toString n"

definition finishOrder_url :: "number \<Rightarrow> string" where
  "finishOrder_url n = ''/user/finish/'' @ Number_toString n"

definition cancelOrder_url :: "number \<Rightarrow> string" where
  "cancelOrder_url n = ''/user/cancel/'' @ Number_toString n"

definition banNumber_url :: "number \<Rightarrow> string" where
  "banNumber_url n = ''/user/ban/'' @ Number_toString n"

section \<open>The HTTP library (axios)\<close>

text \<open>
  The part of axios the client relies on. \<open>axios.create\<close> keeps the defaults it
  is given; \<open>get\<close> sends one GET request that carries those defaults; a response
  whose status is in 200..299 resolves the call, any other response rejects it with an
  error that holds the response, and a request that gets no response rejects it with an
  error that holds only a message. The network is a parameter: it answers a request,
  given the requests sent before it. The list of requests sent so far is the state every
  call threads through.
\<close>

record AxiosInstance =
  baseURL :: string
  timeout :: number
  headers :: "(string \<times> string) list"

record AxiosRequest =
  request_method :: string
  request_url :: string
  request_baseURL :: string
  request_timeout :: number
  request_headers :: "(string \<times> string) list"

datatype reply = Response AxiosResponse | NoResponse string

type_synonym network = "AxiosRequest list \<Rightarrow> AxiosRequest \<Rightarrow> reply"

text \<open>The request that \<open>get(url)\<close> sends on an instance.\<close>

definition get_request :: "AxiosInstance \<Rightarrow> string \<Rightarrow> AxiosRequest" where
  "get_request inst u =
     \<lparr>request_method = ''GET'', request_url = u,
      request_baseURL = baseURL inst, request_timeout = AxiosInstance.timeout inst,
      request_headers = headers inst\<rparr>"

text \<open>How a reply settles the call (the default \<open>validateStatus\<close>).\<close>

definition settle :: "reply \<Rightarrow> AxiosError + AxiosResponse" where
  "settle rep =
     (case rep of
        Response r \<Rightarrow>
          if 200 \<le> status r \<and> status r < 300 then Inr r
          else Inl \<lparr>AxiosError.message =
                      ''Request failed with status code '' @ Number_toString (Integer (status r)),
                    AxiosError.response = Some r\<rparr>
      | NoResponse m \<Rightarrow> Inl \<lparr>AxiosError.message = m, AxiosError.response = None\<rparr>)"

definition axios_get ::
  "AxiosInstance \<Rightarrow> string \<Rightarrow> network \<Rightarrow> AxiosRequest list
     \<Rightarrow> (AxiosError + AxiosResponse) \<times> AxiosRequest list" where
  "axios_get inst u net sent =
     (let req = get_request inst u
      in (settle (net sent req), sent @ [req]))"

section \<open>The client (client.ts)\<close>

record FiveSimConfig =
  apiKey :: string
  baseUrl :: "string option"
  timeout :: "number option"

record FiveSimClient =
  client :: AxiosInstance

text \<open>
  The constructor. \<open>config.baseUrl || 'https://5sim.net/v1'\<close> and
  \<open>config.timeout || 30000\<close> take the default when the option is absent and
  also when it is falsy (an empty string; zero or \<open>NaN\<close>).
\<close>

definition new_FiveSimClient :: "FiveSimConfig \<Rightarrow> FiveSimClient" where
  "new_FiveSimClient config =
     \<lparr>client =
        \<lparr>baseURL =
           (case baseUrl config of
              Some u \<Rightarrow> if u \<noteq> [] then u else ''https://5sim.net/v1''
            | None \<Rightarrow> ''https://5sim.net/v1''),
         AxiosInstance.timeout =
           (case timeout config of
              Some t \<Rightarrow> if number_truthy t then t else Integer 30000
            | None \<Rightarrow> Integer 30000),
         headers =
           [(''Authorization'', ''Bearer '' @ apiKey config),
            (''Accept'', ''application/json'')]\<rparr>\<rparr>"

text \<open>
  What a call of the client ends with: the promise is rejected with what
  \<open>handleError\<close> produced (an error of the taxonomy, or the exception it threw),
  or fulfilled with a value.
\<close>

type_synonym rejection = "js_exception + FiveSimError"

text \<open>
  \<open>this.client.get(url)\<close> with the response interceptor installed by the
  constructor: a response passes unchanged, an error is replaced by
  \<open>handleError(error)\<close>.
\<close>

definition client_get ::
  "FiveSimClient \<Rightarrow> string \<Rightarrow> network \<Rightarrow> AxiosRequest list
     \<Rightarrow> (rejection + AxiosResponse) \<times> AxiosRequest list" where
  "client_get c u net sent =
     (case axios_get (client c) u net sent of
        (Inl err, sent') \<Rightarrow> (Inl (handleError err), sent')
      | (Inr r, sent') \<Rightarrow> (Inr r, sent'))"

text \<open>
  \<open>const { data } = await this.client.get(url); return data;\<close>, the body of every
  operation once its URL is built.
\<close>

definition get_data ::
  "FiveSimClient \<Rightarrow> string \<Rightarrow> network \<Rightarrow> AxiosRequest list
     \<Rightarrow> (rejection + jsvalue) \<times> AxiosRequest list" where
  "get_data c u net sent =
     (case client_get c u net sent of
        (Inl e, sent') \<Rightarrow> (Inl e, sent')
      | (Inr r, sent') \<Rightarrow> (Inr (data r), sent'))"

definition getProfile where
  "getProfile c = get_data c ''/user/profile''"

definition getOrderHistory where
  "getOrderHistory c options = get_data c (getOrderHistory_url options)"

definition getCountries where
  "getCountries c = get_data c ''/guest/countries''"

definition getProducts where
  "getProducts c cty opr = get_data c (getProducts_url cty opr)"

definition getPrices where
  "getPrices c options = get_data c (getPrices_url options)"

definition buyActivation where
  "buyActivation c options = get_data c (buyActivation_url options)"

definition buyHosting where
  "buyHosting c options = get_data c (buyHosting_url options)"

definition checkOrder where
  "checkOrder c n = get_data c (checkOrder_url n)"

definition finishOrder where
  "finishOrder c n = get_data c (finishOrder_url n)"

definition cancelOrder where
  "cancelOrder c n = get_data c (cancelOrder_url n)"

definition banNumber where
  "banNumber c n = get_data c (banNumber_url n)"

text \<open>The eleven operations of the client, and one invocation of any of them.\<close>

datatype operation =
    GetProfile
  | GetOrderHistory "OrderHistoryOptions option"
  | GetCountries
  | GetProducts string string
  | GetPrices "GetPricesOptions option"
  | BuyActivation BuyActivationOptions
  | BuyHosting BuyHostingOptions
  | CheckOrder number
  | FinishOrder number
  | CancelOrder number
  | BanNumber number

fun invoke ::
  "FiveSimClient \<Rightarrow> operation \<Rightarrow> network \<Rightarrow> AxiosRequest list
     \<Rightarrow> (rejection + jsvalue) \<times> AxiosRequest list" where
  "invoke c GetProfile = getProfile c"
| "invoke c (GetOrderHistory options) = getOrderHistory c options"
| "invoke c GetCountries = getCountries c"
| "invoke c (GetProducts cty opr) = getProducts c cty opr"
| "invoke c (GetPrices options) = getPrices c options"
| "invoke c (BuyActivation options) = buyActivation c options"
| "invoke c (BuyHosting options) = buyHosting c options"
| "invoke c (CheckOrder n) = checkOrder c n"
| "invoke c (FinishOrder n) = finishOrder c n"
| "invoke c (CancelOrder n) = cancelOrder c n"
| "invoke c (BanNumber n) = banNumber c n"

text \<open>The URL an operation passes to \<open>get\<close>.\<close>

fun operation_url :: "operation \<Rightarrow> string" where
  "operation_url GetProfile = ''/user/profile''"
| "operation_url (GetOrderHistory options) = getOrderHistory_url options"
| "operation_url GetCountries = ''/guest/countries''"
| "operation_url (GetProducts cty opr) = getProducts_url cty opr"
| "operation_url (GetPrices options) = getPrices_url options"
| "operation_url (BuyActivation options) = buyActivation_url options"
| "operation_url (BuyHosting options) = buyHosting_url options"
| "operation_url (CheckOrder n) = checkOrder_url n"
| "operation_url (FinishOrder n) = finishOrder_url n"
| "operation_url (CancelOrder n) = cancelOrder_url n"
| "operation_url (BanNumber n) = banNumber_url n"

text \<open>
  Reading a returned order as a caller does, \<open>order.sms[0].code\<close>: the
  \<open>code\<close> of the entry of an \<open>sms\<close> list that has exactly one entry.
\<close>

definition first_sms_code :: "jsvalue \<Rightarrow> jsvalue option" where
  "first_sms_code order =
     (case order of
        JObject kvs \<Rightarrow>
          (case map_of kvs ''sms'' of
             Some (JArray [JObject sms]) \<Rightarrow> map_of sms ''code''
           | _ \<Rightarrow> None)
      | _ \<Rightarrow> None)"

text \<open>
  Reading \<open>statusCode\<close> off what a caller catches, \<open>error.statusCode\<close>:
  the field of an error of the taxonomy, and \<open>undefined\<close> on a
  \<open>TypeError\<close>, which has no such property.
\<close>

definition caught_statusCode :: "js_exception + FiveSimError \<Rightarrow> int option" where
  "caught_statusCode caught =
     (case caught of Inl TypeError \<Rightarrow> None | Inr e \<Rightarrow> statusCode e)"

section \<open>Facts about the string functions\<close>

lemma digits_nonempty: "digits n \<noteq> []"
  by (induction n rule: digits.induct) (subst digits.simps, simp)

lemma Number_toString_nonempty: "is_number n \<Longrightarrow> Number_toString n \<noteq> []"
  by (cases n) (simp_all add: is_number_def digits_nonempty)

lemma number_truthy_iff: "number_truthy n \<longleftrightarrow> n \<noteq> Integer 0 \<and> n \<noteq> NaN"
  by (cases n) simp_all

lemma join_nonempty: "xs \<noteq> [] \<Longrightarrow> \<forall>x \<in> set xs. x \<noteq> [] \<Longrightarrow> join sep xs \<noteq> []"
  by (induction sep xs rule: join.induct) auto

lemma toString_nonempty: "params \<noteq> [] \<Longrightarrow> URLSearchParams_toString params \<noteq> []"
  unfolding URLSearchParams_toString_def
  by (rule join_nonempty) auto

lemma toString_empty: "URLSearchParams_toString [] = []"
  by (simp add: URLSearchParams_toString_def)

section \<open>Facts about the classification\<close>

lemma new_FiveSimError_string:
  "new_FiveSimError (JString m) code resp =
     Inr \<lparr>name = ''FiveSimError'', message = m, statusCode = code, response = resp\<rparr>"
  by (simp add: new_FiveSimError_def)

lemma new_subclass_eq:
  "new_subclass class_name default_message code msg =
     Inr \<lparr>name = class_name,
          message = (case msg of None \<Rightarrow> default_message | Some m \<Rightarrow> m),
          statusCode = Some code, response = JUndefined\<rparr>"
  by (simp add: new_subclass_def new_FiveSimError_string)

lemma new_FiveSimError_statusCode:
  "new_FiveSimError msg code resp = Inr e \<Longrightarrow> statusCode e = code"
  by (auto simp add: new_FiveSimError_def split: sum.splits if_splits)

lemma handleError_no_response:
  "AxiosError.response error = None \<Longrightarrow>
   handleError error =
     Inr \<lparr>name = ''FiveSimError'',
          message = (if AxiosError.message error = [] then ''Network error''
                     else AxiosError.message error),
          statusCode = None, response = JUndefined\<rparr>"
  by (simp add: handleError_def new_FiveSimError_string js_or_def)

lemma handleError_401:
  "AxiosError.response error = Some r \<Longrightarrow> status r = 401 \<Longrightarrow>
   handleError error =
     Inr \<lparr>name = ''AuthenticationError'', message = ''Invalid or missing API key'',
          statusCode = Some 401, response = JUndefined\<rparr>"
  by (simp add: handleError_def new_AuthenticationError_def new_subclass_eq)

lemma handleError_429:
  "AxiosError.response error = Some r \<Longrightarrow> status r = 429 \<Longrightarrow>
   handleError error =
     Inr \<lparr>name = ''RateLimitError'',
          message = ''Rate limit exceeded. Please wait before making more requests.'',
          statusCode = Some 429, response = JUndefined\<rparr>"
  by (simp add: handleError_def new_RateLimitError_def new_subclass_eq)

lemma handleError_503:
  "AxiosError.response error = Some r \<Longrightarrow> status r = 503 \<Longrightarrow>
   handleError error =
     Inr \<lparr>name = ''ServiceUnavailableError'',
          message = ''Service temporarily unavailable. Server-side limits reached.'',
          statusCode = Some 503, response = JUndefined\<rparr>"
  by (simp add: handleError_def new_ServiceUnavailableError_def new_subclass_eq)

lemma handleError_400_no_numbers:
  "AxiosError.response error = Some r \<Longrightarrow> status r = 400 \<Longrightarrow>
   body_message [] (data r) = JString m \<Longrightarrow>
   js_includes (toLowerCase m) ''no'' \<or> js_includes (toLowerCase m) ''not available'' \<Longrightarrow>
   handleError error =
     Inr \<lparr>name = ''NoNumbersError'', message = m, statusCode = Some 400,
          response = JUndefined\<rparr>"
  by (auto simp add: handleError_def new_NoNumbersError_def new_subclass_eq)

lemma handleError_400_generic:
  "AxiosError.response error = Some r \<Longrightarrow> status r = 400 \<Longrightarrow>
   body_message [] (data r) = JString m \<Longrightarrow>
   \<not> js_includes (toLowerCase m) ''no'' \<Longrightarrow>
   \<not> js_includes (toLowerCase m) ''not available'' \<Longrightarrow>
   handleError error =
     Inr \<lparr>name = ''FiveSimError'', message = (if m = [] then ''Bad request'' else m),
          statusCode = Some 400, response = data r\<rparr>"
  by (simp add: handleError_def new_FiveSimError_string js_or_def)

lemma body_message_defined: "body_message ''Unknown error'' d \<noteq> JUndefined"
  by (cases d) (auto simp add: body_message_def js_or_def)

lemma handleError_other:
  "AxiosError.response error = Some r \<Longrightarrow>
   status r \<noteq> 401 \<Longrightarrow> status r \<noteq> 429 \<Longrightarrow> status r \<noteq> 503 \<Longrightarrow> status r \<noteq> 400 \<Longrightarrow>
   handleError error =
     (case ToString (body_message ''Unknown error'' (data r)) of
        Inl ex \<Rightarrow> Inl ex
      | Inr m \<Rightarrow>
          Inr \<lparr>name = ''FiveSimError'', message = m,
               statusCode = Some (status r), response = data r\<rparr>)"
  by (simp add: handleError_def new_FiveSimError_def body_message_defined)

text \<open>
  The two places where \<open>handleError\<close> throws: a 400 whose message is not a string,
  and a status without a branch of its own whose message has no conversion to a string.
\<close>

lemma handleError_throws_iff:
  "handleError error = Inl TypeError \<longleftrightarrow>
     (\<exists>r. AxiosError.response error = Some r \<and>
          (status r = 400 \<and> (\<forall>m. body_message [] (data r) \<noteq> JString m)
           \<or> status r \<noteq> 401 \<and> status r \<noteq> 429 \<and> status r \<noteq> 503 \<and> status r \<noteq> 400
             \<and> ToString (body_message ''Unknown error'' (data r)) = Inl TypeError))"
proof (cases "AxiosError.response error")
  case None
  then show ?thesis
    by (simp add: handleError_no_response)
next
  case (Some r)
  consider "status r = 401" | "status r = 429" | "status r = 503" | "status r = 400"
    | "status r \<noteq> 401" "status r \<noteq> 429" "status r \<noteq> 503" "status r \<noteq> 400"
    by blast
  then show ?thesis
  proof cases
    case 1
    with Some show ?thesis by (simp add: handleError_401)
  next
    case 2
    with Some show ?thesis by (simp add: handleError_429)
  next
    case 3
    with Some show ?thesis by (simp add: handleError_503)
  next
    case 4
    with Some show ?thesis
      by (auto simp add: handleError_def new_NoNumbersError_def new_subclass_eq
          new_FiveSimError_string js_or_def split: jsvalue.splits)
  next
    case 5
    with Some show ?thesis
      by (cases "ToString (body_message ''Unknown error'' (data r))")
         (auto simp add: handleError_other)
  qed
qed

lemma handleError_statusCode:
  assumes "AxiosError.response error = Some r" and "handleError error = Inr e"
  shows "statusCode e = Some (status r)"
proof -
  consider "status r = 401" | "status r = 429" | "status r = 503" | "status r = 400"
    | "status r \<noteq> 401" "status r \<noteq> 429" "status r \<noteq> 503" "status r \<noteq> 400"
    by blast
  then show ?thesis
  proof cases
    case 1
    with assms show ?thesis by (auto simp add: handleError_401)
  next
    case 2
    with assms show ?thesis by (auto simp add: handleError_429)
  next
    case 3
    with assms show ?thesis by (auto simp add: handleError_503)
  next
    case 4
    with assms show ?thesis
      by (auto simp add: handleError_def new_NoNumbersError_def new_subclass_eq
          new_FiveSimError_string js_or_def split: jsvalue.splits if_splits)
  next
    case 5
    with assms show ?thesis
      by (auto simp add: handleError_other split: sum.splits)
  qed
qed

lemma body_message_string:
  "(\<exists>m. body_message dflt d = JString m) \<longleftrightarrow>
     (\<exists>s. d = JString s) \<or> \<not> truthy (optional_message d) \<or> (\<exists>s. optional_message d = JString s)"
  by (cases d) (auto simp add: body_message_def js_or_def)

lemma startsWith_append:
  assumes "startsWith s (a @ b)"
  shows "startsWith s a"
proof -
  have h: "take (length (a @ b)) s = a @ b"
    using assms by (simp add: startsWith_def)
  have "take (length a) (take (length (a @ b)) s) = a"
    by (subst h) simp
  then show ?thesis
    by (simp add: startsWith_def)
qed

lemma startsWith_not_available:
  "startsWith s ''not available'' \<Longrightarrow> startsWith s ''no''"
  using startsWith_append [of s "''no''" "''t available''"] by simp

lemma includes_not_available:
  "js_includes s ''not available'' \<Longrightarrow> js_includes s ''no''"
proof (induction s)
  case Nil
  then show ?case by simp
next
  case (Cons c cs)
  then show ?case
    using startsWith_not_available [of "c # cs"] by (auto split: if_splits)
qed

section \<open>Facts about a call\<close>

lemma invoke_get_data: "invoke c oper = get_data c (operation_url oper)"
  by (cases oper)
     (simp_all add: getProfile_def getOrderHistory_def getCountries_def getProducts_def
        getPrices_def buyActivation_def buyHosting_def checkOrder_def finishOrder_def
        cancelOrder_def banNumber_def)

lemma get_data_sent: "snd (get_data c u net sent) = sent @ [get_request (client c) u]"
  by (simp add: get_data_def client_get_def axios_get_def Let_def
      split: sum.splits prod.splits)

lemma get_data_result:
  "fst (get_data c u net sent) =
     (case settle (net sent (get_request (client c) u)) of
        Inl err \<Rightarrow> Inl (handleError err)
      | Inr r \<Rightarrow> Inr (data r))"
  by (simp add: get_data_def client_get_def axios_get_def Let_def
      split: sum.splits prod.splits)

lemma invoke_sent:
  "snd (invoke c oper net sent) = sent @ [get_request (client c) (operation_url oper)]"
  by (simp add: invoke_get_data get_data_sent)

lemma invoke_result:
  "fst (invoke c oper net sent) =
     (case settle (net sent (get_request (client c) (operation_url oper))) of
        Inl err \<Rightarrow> Inl (handleError err)
      | Inr r \<Rightarrow> Inr (data r))"
  by (simp add: invoke_get_data get_data_result)

lemma request_url_get_request: "request_url (get_request inst u) = u"
  by (simp add: get_request_def)

lemma with_query_cases:
  "with_query path params =
     (if params = [] then path else path @ ''?'' @ URLSearchParams_toString params)"
  by (simp add: with_query_def Let_def toString_nonempty toString_empty)

lemma getOrderHistory_params_eq:
  "getOrderHistory_params options =
     (case options of
        None \<Rightarrow> []
      | Some opts \<Rightarrow>
          (case category opts of None \<Rightarrow> []
           | Some c \<Rightarrow> [(''category'', OrderCategory_value c)])
          @ (case limit opts of None \<Rightarrow> []
             | Some n \<Rightarrow> if number_truthy n then [(''limit'', Number_toString n)] else [])
          @ (case offset opts of None \<Rightarrow> []
             | Some n \<Rightarrow> [(''offset'', Number_toString n)]))"
proof -
  have cat_nonempty: "OrderCategory_value x \<noteq> []" for x
    by (cases x) simp_all
  show ?thesis
  proof (cases options)
    case None
    then show ?thesis
      by (simp add: getOrderHistory_params_def new_URLSearchParams_def)
  next
    case (Some opts)
    then show ?thesis
      by (cases "category opts"; cases "limit opts"; cases "offset opts")
         (simp_all add: getOrderHistory_params_def new_URLSearchParams_def
            URLSearchParams_append_def cat_nonempty)
  qed
qed

section \<open>Order history: which parameters are sent\<close>

text \<open>
  C3, as the code has it. In the query string of get-order-history, \<open>category\<close>
  and \<open>offset\<close> appear exactly when they are defined, and \<open>limit\<close>
  exactly when it is defined and truthy, that is neither zero nor \<open>NaN\<close> (the
  source tests \<open>limit\<close> for truthiness and \<open>offset\<close> against
  \<open>undefined\<close>). No parameter is sent with an empty value. The URL is
  \<open>/user/orders\<close> alone when no parameter is sent, and \<open>/user/orders?\<close>
  followed by the serialised parameters otherwise; it is the URL of the one request the
  operation adds to those sent. With category activation, limit 10 and offset 0 the URL
  is \<open>/user/orders?category=activation&limit=10&offset=0\<close>, and without options
  it is \<open>/user/orders\<close>.
\<close>

theorem getOrderHistory_query:
  "(''category'' \<in> fst ` set (getOrderHistory_params options)
      \<longleftrightarrow> (\<exists>opts c. options = Some opts \<and> category opts = Some c))
   \<and> (''limit'' \<in> fst ` set (getOrderHistory_params options)
      \<longleftrightarrow> (\<exists>opts n. options = Some opts \<and> limit opts = Some n
                     \<and> n \<noteq> Integer 0 \<and> n \<noteq> NaN))
   \<and> (''offset'' \<in> fst ` set (getOrderHistory_params options)
      \<longleftrightarrow> (\<exists>opts n. options = Some opts \<and> offset opts = Some n))
   \<and> ((\<forall>opts n. options = Some opts \<and> (limit opts = Some n \<or> offset opts = Some n)
          \<longrightarrow> is_number n)
        \<longrightarrow> [] \<notin> snd ` set (getOrderHistory_params options))
   \<and> getOrderHistory_url options =
       (if getOrderHistory_params options = [] then ''/user/orders''
        else ''/user/orders?'' @ URLSearchParams_toString (getOrderHistory_params options))
   \<and> map request_url (snd (getOrderHistory c options net sent)) =
       map request_url sent @ [getOrderHistory_url options]
   \<and> getOrderHistory_url
         (Some \<lparr>category = Some ACTIVATION, limit = Some (Integer 10),
                 offset = Some (Integer 0)\<rparr>) =
       ''/user/orders?category=activation&limit=10&offset=0''
   \<and> getOrderHistory_url None = ''/user/orders''"
proof -
  let ?P = "getOrderHistory_params options"
  have cat_nonempty: "OrderCategory_value x \<noteq> []" for x
    by (cases x) simp_all
  have c: "''category'' \<in> fst ` set ?P
      \<longleftrightarrow> (\<exists>opts c. options = Some opts \<and> category opts = Some c)"
  proof (cases options)
    case None
    then show ?thesis by (simp add: getOrderHistory_params_eq)
  next
    case (Some opts)
    then show ?thesis
      by (cases "category opts"; cases "limit opts"; cases "offset opts")
         (auto simp add: getOrderHistory_params_eq)
  qed
  have l: "''limit'' \<in> fst ` set ?P
      \<longleftrightarrow> (\<exists>opts n. options = Some opts \<and> limit opts = Some n
                     \<and> n \<noteq> Integer 0 \<and> n \<noteq> NaN)"
  proof (cases options)
    case None
    then show ?thesis by (simp add: getOrderHistory_params_eq)
  next
    case (Some opts)
    then show ?thesis
      by (cases "category opts"; cases "limit opts"; cases "offset opts")
         (auto simp add: getOrderHistory_params_eq number_truthy_iff)
  qed
  have off: "''offset'' \<in> fst ` set ?P
      \<longleftrightarrow> (\<exists>opts n. options = Some opts \<and> offset opts = Some n)"
  proof (cases options)
    case None
    then show ?thesis by (simp add: getOrderHistory_params_eq)
  next
    case (Some opts)
    then show ?thesis
      by (cases "category opts"; cases "limit opts"; cases "offset opts")
         (auto simp add: getOrderHistory_params_eq)
  qed
  have ne: "[] \<notin> snd ` set ?P"
    if num: "\<forall>opts n. options = Some opts \<and> (limit opts = Some n \<or> offset opts = Some n)
          \<longrightarrow> is_number n"
  proof (cases options)
    case None
    then show ?thesis by (simp add: getOrderHistory_params_eq)
  next
    case (Some opts)
    with num have "limit opts = Some n \<Longrightarrow> Number_toString n \<noteq> []"
      and "offset opts = Some n \<Longrightarrow> Number_toString n \<noteq> []" for n
      by (simp_all add: Number_toString_nonempty)
    with Some show ?thesis
      by (cases "category opts"; cases "limit opts"; cases "offset opts")
         (auto simp add: getOrderHistory_params_eq cat_nonempty cat_nonempty [symmetric])
  qed
  have u: "getOrderHistory_url options =
       (if ?P = [] then ''/user/orders''
        else ''/user/orders?'' @ URLSearchParams_toString ?P)"
    by (simp add: getOrderHistory_url_def with_query_cases)
  have r: "map request_url (snd (getOrderHistory c options net sent)) =
       map request_url sent @ [getOrderHistory_url options]"
    by (simp add: getOrderHistory_def get_data_sent request_url_get_request)
  have e1: "getOrderHistory_url
         (Some \<lparr>category = Some ACTIVATION, limit = Some (Integer 10),
                 offset = Some (Integer 0)\<rparr>) =
       ''/user/orders?category=activation&limit=10&offset=0''"
    by code_simp
  have e2: "getOrderHistory_url None = ''/user/orders''"
    by code_simp
  from c l off ne u r e1 e2 show ?thesis
    by blast
qed

text \<open>
  The theorem at the options of the test: all three parameters are sent, none of them
  empty.
\<close>

theorem getOrderHistory_query_witness:
  "''category'' \<in> fst ` set (getOrderHistory_params
       (Some \<lparr>category = Some ACTIVATION, limit = Some (Integer 10),
               offset = Some (Integer 0)\<rparr>))
   \<and> ''limit'' \<in> fst ` set (getOrderHistory_params
       (Some \<lparr>category = Some ACTIVATION, limit = Some (Integer 10),
               offset = Some (Integer 0)\<rparr>))
   \<and> ''offset'' \<in> fst ` set (getOrderHistory_params
       (Some \<lparr>category = Some ACTIVATION, limit = Some (Integer 10),
               offset = Some (Integer 0)\<rparr>))
   \<and> [] \<notin> snd ` set (getOrderHistory_params
       (Some \<lparr>category = Some ACTIVATION, limit = Some (Integer 10),
               offset = Some (Integer 0)\<rparr>))
   \<and> getOrderHistory_url
         (Some \<lparr>category = Some ACTIVATION, limit = Some (Integer 10),
                 offset = Some (Integer 0)\<rparr>) =
       ''/user/orders?category=activation&limit=10&offset=0''"
proof -
  let ?opts = "\<lparr>category = Some ACTIVATION, limit = Some (Integer 10),
                 offset = Some (Integer 0)\<rparr>"
  note inst = getOrderHistory_query
    [where options = "Some ?opts"
       and c = "new_FiveSimClient \<lparr>apiKey = ''test-api-key'', baseUrl = None, timeout = None\<rparr>"
       and net = "\<lambda>sent req. NoResponse ''Network Error''" and sent = "[]"]
  have c: "\<exists>opts c. Some ?opts = Some opts \<and> category opts = Some c"
    by simp
  have l: "\<exists>opts n. Some ?opts = Some opts \<and> limit opts = Some n
              \<and> n \<noteq> Integer 0 \<and> n \<noteq> NaN"
    by simp
  have off: "\<exists>opts n. Some ?opts = Some opts \<and> offset opts = Some n"
    by simp
  have num: "\<forall>opts n. Some ?opts = Some opts \<and> (limit opts = Some n \<or> offset opts = Some n)
          \<longrightarrow> is_number n"
    by (auto simp add: is_number_def)
  from inst c l off num show ?thesis
    by blast
qed

text \<open>
  C3 as the specification states it fails: a limit of 0 is defined, and is not sent.
\<close>

theorem getOrderHistory_limit_zero:
  "getOrderHistory_url (Some \<lparr>category = None, limit = Some (Integer 0), offset = None\<rparr>)
     = ''/user/orders''
   \<and> ''limit'' \<notin> fst ` set (getOrderHistory_params
         (Some \<lparr>category = None, limit = Some (Integer 0), offset = None\<rparr>))"
  by (simp add: getOrderHistory_url_def getOrderHistory_params_eq with_query_def
      toString_empty)

text \<open>The same happens at a limit of \<open>NaN\<close>.\<close>

lemma getOrderHistory_limit_NaN:
  "getOrderHistory_url (Some \<lparr>category = None, limit = Some NaN, offset = None\<rparr>)
     = ''/user/orders''"
  by (simp add: getOrderHistory_url_def getOrderHistory_params_eq with_query_def
      toString_empty)

section \<open>Prices: the request URL\<close>

lemma getPrices_params_eq:
  "getPrices_params options =
     (case options of
        None \<Rightarrow> []
      | Some opts \<Rightarrow>
          (case prices_country opts of None \<Rightarrow> []
           | Some c \<Rightarrow> if c = [] then [] else [(''country'', c)])
          @ (case prices_product opts of None \<Rightarrow> []
             | Some p \<Rightarrow> if p = [] then [] else [(''product'', p)]))"
proof (cases options)
  case None
  then show ?thesis
    by (simp add: getPrices_params_def new_URLSearchParams_def)
next
  case (Some opts)
  then show ?thesis
    by (cases "prices_country opts"; cases "prices_product opts")
       (simp_all add: getPrices_params_def new_URLSearchParams_def URLSearchParams_append_def)
qed

text \<open>
  C4. Without options, and with options that set neither parameter, get-prices requests
  \<open>/guest/prices\<close>, with no query string and no separator. With country
  \<open>russia\<close> and product \<open>telegram\<close> it requests
  \<open>/guest/prices?country=russia&product=telegram\<close>; whenever both are given
  (and not empty), the country parameter comes before the product parameter. That URL
  is the URL of the one request the operation adds to those sent.
\<close>

theorem getPrices_request_url:
  "getPrices_url None = ''/guest/prices''
   \<and> getPrices_url (Some \<lparr>prices_country = None, prices_product = None\<rparr>) = ''/guest/prices''
   \<and> getPrices_url (Some \<lparr>prices_country = Some ''russia'', prices_product = Some ''telegram''\<rparr>)
       = ''/guest/prices?country=russia&product=telegram''
   \<and> (cty \<noteq> [] \<and> prd \<noteq> [] \<longrightarrow>
        getPrices_url (Some \<lparr>prices_country = Some cty, prices_product = Some prd\<rparr>)
        = ''/guest/prices?country='' @ urlencode cty @ ''&product='' @ urlencode prd)
   \<and> map request_url (snd (getPrices c options net sent)) =
       map request_url sent @ [getPrices_url options]"
proof -
  have a: "getPrices_url None = ''/guest/prices''"
    by code_simp
  have b: "getPrices_url (Some \<lparr>prices_country = None, prices_product = None\<rparr>) = ''/guest/prices''"
    by code_simp
  have c: "getPrices_url (Some \<lparr>prices_country = Some ''russia'', prices_product = Some ''telegram''\<rparr>)
       = ''/guest/prices?country=russia&product=telegram''"
    by code_simp
  have d: "cty \<noteq> [] \<and> prd \<noteq> [] \<longrightarrow>
        getPrices_url (Some \<lparr>prices_country = Some cty, prices_product = Some prd\<rparr>)
        = ''/guest/prices?country='' @ urlencode cty @ ''&product='' @ urlencode prd"
    by (simp add: getPrices_url_def getPrices_params_eq with_query_cases
        URLSearchParams_toString_def urlencode_def urlencode_byte_def urlencoded_plain_def)
  have e: "map request_url (snd (getPrices c options net sent)) =
       map request_url sent @ [getPrices_url options]"
    by (simp add: getPrices_def get_data_sent request_url_get_request)
  from a b c d e show ?thesis
    by blast
qed

text \<open>The theorem at the country and product of the test.\<close>

theorem getPrices_request_url_witness:
  "''russia'' \<noteq> [] \<and> ''telegram'' \<noteq> []
   \<and> getPrices_url (Some \<lparr>prices_country = Some ''russia'', prices_product = Some ''telegram''\<rparr>)
       = ''/guest/prices?country='' @ urlencode ''russia'' @ ''&product='' @ urlencode ''telegram''"
  using getPrices_request_url
    [where cty = "''russia''" and prd = "''telegram''" and options = None
       and c = "new_FiveSimClient \<lparr>apiKey = ''test-api-key'', baseUrl = None, timeout = None\<rparr>"
       and net = "\<lambda>sent req. NoResponse ''Network Error''" and sent = "[]"]
  by blast

section \<open>Buying an activation: the forwarding parameter\<close>

text \<open>
  C5. A buy-activation call with a truthy forwarding value (a string that is not empty)
  requests \<open>/user/buy/activation/{country}/{operator}/{product}\<close> followed by
  exactly \<open>?forwarding=1\<close>, whatever the forwarding string is; with forwarding
  absent the URL is the path alone, with no \<open>?\<close>. That URL is the URL of the one
  request the operation adds to those sent.
\<close>

theorem buyActivation_forwarding:
  "(\<forall>f. forwarding options = Some f \<and> f \<noteq> [] \<longrightarrow>
      buyActivation_url options =
        ''/user/buy/activation/'' @ country options @ ''/'' @ operator options
          @ ''/'' @ product options @ ''?forwarding=1'')
   \<and> (forwarding options = None \<longrightarrow>
      buyActivation_url options =
        ''/user/buy/activation/'' @ country options @ ''/'' @ operator options
          @ ''/'' @ product options)
   \<and> map request_url (snd (buyActivation c options net sent)) =
       map request_url sent @ [buyActivation_url options]"
proof -
  have q: "URLSearchParams_toString [(''forwarding'', ''1'')] = ''forwarding=1''"
    by code_simp
  have a: "forwarding options = Some f \<and> f \<noteq> [] \<longrightarrow>
      buyActivation_url options =
        ''/user/buy/activation/'' @ country options @ ''/'' @ operator options
          @ ''/'' @ product options @ ''?forwarding=1''" for f
    by (simp add: buyActivation_url_def buyActivation_params_def buyActivation_path_def
        new_URLSearchParams_def URLSearchParams_append_def with_query_cases q)
  have b: "forwarding options = None \<longrightarrow>
      buyActivation_url options =
        ''/user/buy/activation/'' @ country options @ ''/'' @ operator options
          @ ''/'' @ product options"
    by (simp add: buyActivation_url_def buyActivation_params_def buyActivation_path_def
        new_URLSearchParams_def with_query_cases)
  have e: "map request_url (snd (buyActivation c options net sent)) =
       map request_url sent @ [buyActivation_url options]"
    by (simp add: buyActivation_def get_data_sent request_url_get_request)
  from a b e show ?thesis
    by blast
qed

text \<open>The theorem at the two calls of the test, with and without forwarding.\<close>

theorem buyActivation_forwarding_witness:
  "buyActivation_url
     \<lparr>country = ''russia'', operator = ''any'', product = ''telegram'',
      forwarding = Some ''+1234567890''\<rparr>
   = ''/user/buy/activation/russia/any/telegram?forwarding=1''
   \<and> buyActivation_url
     \<lparr>country = ''russia'', operator = ''any'', product = ''telegram'', forwarding = None\<rparr>
   = ''/user/buy/activation/russia/any/telegram''"
  using buyActivation_forwarding
    [where options = "\<lparr>country = ''russia'', operator = ''any'', product = ''telegram'',
        forwarding = Some ''+1234567890''\<rparr>"
       and c = "new_FiveSimClient \<lparr>apiKey = ''test-api-key'', baseUrl = None, timeout = None\<rparr>"
       and net = "\<lambda>sent req. NoResponse ''Network Error''" and sent = "[]"]
    buyActivation_forwarding
    [where options = "\<lparr>country = ''russia'', operator = ''any'', product = ''telegram'',
        forwarding = None\<rparr>"
       and c = "new_FiveSimClient \<lparr>apiKey = ''test-api-key'', baseUrl = None, timeout = None\<rparr>"
       and net = "\<lambda>sent req. NoResponse ''Network Error''" and sent = "[]"]
  by simp

section \<open>The Authorization header\<close>

text \<open>
  C6. For every configuration and every operation, the guest endpoints included, the
  call sends one request, and its \<open>Authorization\<close> header is \<open>Bearer\<close>,
  a space, and the configured \<open>apiKey\<close>.
\<close>

theorem authorization_header:
  "\<exists>req. snd (invoke (new_FiveSimClient config) oper net sent) = sent @ [req]
         \<and> map_of (request_headers req) ''Authorization'' = Some (''Bearer '' @ apiKey config)"
  by (simp add: invoke_sent get_request_def new_FiveSimClient_def)

text \<open>The theorem at the configuration of the test, on a guest endpoint.\<close>

theorem authorization_header_witness:
  "\<exists>req. snd (invoke (new_FiveSimClient \<lparr>apiKey = ''test-api-key'', baseUrl = None, timeout = None\<rparr>)
                 GetCountries (\<lambda>sent req. NoResponse ''Network Error'') []) = [req]
         \<and> map_of (request_headers req) ''Authorization'' = Some ''Bearer test-api-key''"
  using authorization_header
    [where config = "\<lparr>apiKey = ''test-api-key'', baseUrl = None, timeout = None\<rparr>"
       and oper = GetCountries and net = "\<lambda>sent req. NoResponse ''Network Error''"
       and sent = "[]"]
  by simp

section \<open>Defaults of the configuration\<close>

text \<open>
  C7, as the code has it. With \<open>baseUrl\<close> absent every request goes to
  \<open>https://5sim.net/v1\<close>, and with \<open>timeout\<close> absent its deadline is
  30000 ms. A supplied \<open>baseUrl\<close> that is not empty and a supplied
  \<open>timeout\<close> that is truthy, that is neither zero nor \<open>NaN\<close>, are used
  as given; an empty \<open>baseUrl\<close> and a \<open>timeout\<close> of zero or
  \<open>NaN\<close> are replaced by the defaults, as absent ones are.
\<close>

theorem constructor_defaults:
  "(baseUrl config = None \<longrightarrow>
      request_baseURL (get_request (client (new_FiveSimClient config)) u) = ''https://5sim.net/v1'')
   \<and> (timeout config = None \<longrightarrow>
      request_timeout (get_request (client (new_FiveSimClient config)) u) = Integer 30000)
   \<and> (\<forall>b. baseUrl config = Some b \<and> b \<noteq> [] \<longrightarrow>
      request_baseURL (get_request (client (new_FiveSimClient config)) u) = b)
   \<and> (\<forall>t. timeout config = Some t \<and> t \<noteq> Integer 0 \<and> t \<noteq> NaN \<longrightarrow>
      request_timeout (get_request (client (new_FiveSimClient config)) u) = t)
   \<and> (baseUrl config = Some [] \<longrightarrow>
      request_baseURL (get_request (client (new_FiveSimClient config)) u) = ''https://5sim.net/v1'')
   \<and> (timeout config = Some (Integer 0) \<or> timeout config = Some NaN \<longrightarrow>
      request_timeout (get_request (client (new_FiveSimClient config)) u) = Integer 30000)"
  by (auto simp add: get_request_def new_FiveSimClient_def number_truthy_iff)

text \<open>The theorem at the two custom configurations of the test.\<close>

theorem constructor_defaults_witness:
  "request_baseURL (get_request (client (new_FiveSimClient
       \<lparr>apiKey = ''test-key'', baseUrl = Some ''https://custom.api'', timeout = None\<rparr>))
       ''/user/profile'') = ''https://custom.api''
   \<and> request_timeout (get_request (client (new_FiveSimClient
       \<lparr>apiKey = ''test-key'', baseUrl = Some ''https://custom.api'', timeout = None\<rparr>))
       ''/user/profile'') = Integer 30000
   \<and> request_timeout (get_request (client (new_FiveSimClient
       \<lparr>apiKey = ''test-key'', baseUrl = None, timeout = Some (Integer 60000)\<rparr>))
       ''/user/profile'') = Integer 60000
   \<and> request_baseURL (get_request (client (new_FiveSimClient
       \<lparr>apiKey = ''test-key'', baseUrl = None, timeout = Some (Integer 60000)\<rparr>))
       ''/user/profile'') = ''https://5sim.net/v1''"
  using constructor_defaults
    [where config = "\<lparr>apiKey = ''test-key'', baseUrl = Some ''https://custom.api'', timeout = None\<rparr>"
       and u = "''/user/profile''"]
    constructor_defaults
    [where config = "\<lparr>apiKey = ''test-key'', baseUrl = None, timeout = Some (Integer 60000)\<rparr>"
       and u = "''/user/profile''"]
  by simp

text \<open>
  C7 as the specification states it fails: a supplied \<open>timeout\<close> of 0 is not
  used as given, the deadline is 30000 ms.
\<close>

theorem constructor_timeout_zero:
  "request_timeout (get_request (client (new_FiveSimClient
       \<lparr>apiKey = ''test-key'', baseUrl = None, timeout = Some (Integer 0)\<rparr>))
       ''/user/profile'') = Integer 30000
   \<and> request_timeout (get_request (client (new_FiveSimClient
       \<lparr>apiKey = ''test-key'', baseUrl = None, timeout = Some (Integer 0)\<rparr>))
       ''/user/profile'') \<noteq> Integer 0"
  by (simp add: get_request_def new_FiveSimClient_def)

section \<open>A request that gets no response\<close>

text \<open>
  C2, as the code has it. When no HTTP response is received, the call of any operation
  is rejected with a \<open>FiveSimError\<close> of the base class that has no status code.
  It carries the transport's message, or the text \<open>Network error\<close> when that
  message is empty. It is not an authentication error, not a rate-limit error, and not a
  generic error with a status code.
\<close>

theorem no_response_error:
  assumes "net sent (get_request (client c) (operation_url oper)) = NoResponse m"
  shows "\<exists>e. fst (invoke c oper net sent) = Inl (Inr e)
           \<and> name e = ''FiveSimError''
           \<and> message e = (if m = [] then ''Network error'' else m)
           \<and> statusCode e = None
           \<and> response e = JUndefined
           \<and> name e \<noteq> ''AuthenticationError''
           \<and> name e \<noteq> ''RateLimitError''"
  using assms by (simp add: invoke_result settle_def handleError_no_response)

text \<open>The theorem at a request that times out.\<close>

theorem no_response_error_witness:
  "\<exists>e. fst (invoke
             (new_FiveSimClient \<lparr>apiKey = ''test-api-key'', baseUrl = None, timeout = None\<rparr>)
             GetProfile (\<lambda>sent req. NoResponse ''timeout of 30000ms exceeded'') [])
          = Inl (Inr e)
        \<and> name e = ''FiveSimError''
        \<and> message e = ''timeout of 30000ms exceeded''
        \<and> statusCode e = None"
proof -
  let ?c = "new_FiveSimClient \<lparr>apiKey = ''test-api-key'', baseUrl = None, timeout = None\<rparr>"
  let ?net = "\<lambda>(sent :: AxiosRequest list) (req :: AxiosRequest).
                NoResponse ''timeout of 30000ms exceeded''"
  have h: "?net [] (get_request (client ?c) (operation_url GetProfile))
             = NoResponse ''timeout of 30000ms exceeded''"
    by simp
  from no_response_error
    [where c = ?c and oper = GetProfile and net = ?net and sent = "[]"
       and m = "''timeout of 30000ms exceeded''"] h
  show ?thesis
    by auto
qed

text \<open>
  C2 as the specification states it fails: when the transport's message is empty, the
  error does not carry it; its message is \<open>Network error\<close>.
\<close>

theorem no_response_empty_message:
  "handleError \<lparr>AxiosError.message = [], AxiosError.response = None\<rparr> =
     Inr \<lparr>name = ''FiveSimError'', message = ''Network error'',
          statusCode = None, response = JUndefined\<rparr>
   \<and> message (projr (handleError \<lparr>AxiosError.message = [], AxiosError.response = None\<rparr>))
       \<noteq> AxiosError.message \<lparr>AxiosError.message = [], AxiosError.response = None\<rparr>"
  by (simp add: handleError_no_response)

section \<open>Checking an order\<close>

text \<open>
  C8. When the server answers check-order with a 2xx response, the operation returns
  the parsed body as it is. In particular, when the body is an order whose
  \<open>sms\<close> list has one entry, the returned order has the same entry with the same
  \<open>code\<close>.
\<close>

theorem checkOrder_returns_body:
  assumes "net sent (get_request (client c) (checkOrder_url n)) = Response r"
    and "200 \<le> status r" and "status r < 300"
    and "first_sms_code (data r) = Some code"
  shows "fst (checkOrder c n net sent) = Inr (data r)
         \<and> (\<exists>order. fst (checkOrder c n net sent) = Inr order
                \<and> first_sms_code order = Some code)"
  using assms by (simp add: checkOrder_def get_data_result settle_def)

text \<open>The theorem at the order of the test.\<close>

theorem checkOrder_returns_body_witness:
  "fst (checkOrder
          (new_FiveSimClient \<lparr>apiKey = ''test-api-key'', baseUrl = None, timeout = None\<rparr>)
          (Integer 12345)
          (\<lambda>sent req. Response
             \<lparr>status = 200,
              data = JObject
                [(''id'', JNumber (Integer 12345)), (''phone'', JString ''79001234567''),
                 (''status'', JString ''RECEIVED''),
                 (''sms'', JArray [JObject
                    [(''sender'', JString ''Telegram''),
                     (''text'', JString ''Your code is 12345''),
                     (''code'', JString ''12345'')]])]\<rparr>)
          [])
   = Inr (JObject
                [(''id'', JNumber (Integer 12345)), (''phone'', JString ''79001234567''),
                 (''status'', JString ''RECEIVED''),
                 (''sms'', JArray [JObject
                    [(''sender'', JString ''Telegram''),
                     (''text'', JString ''Your code is 12345''),
                     (''code'', JString ''12345'')]])])
   \<and> first_sms_code (JObject
                [(''id'', JNumber (Integer 12345)), (''phone'', JString ''79001234567''),
                 (''status'', JString ''RECEIVED''),
                 (''sms'', JArray [JObject
                    [(''sender'', JString ''Telegram''),
                     (''text'', JString ''Your code is 12345''),
                     (''code'', JString ''12345'')]])]) = Some (JString ''12345'')"
proof -
  let ?body = "JObject
                [(''id'', JNumber (Integer 12345)), (''phone'', JString ''79001234567''),
                 (''status'', JString ''RECEIVED''),
                 (''sms'', JArray [JObject
                    [(''sender'', JString ''Telegram''),
                     (''text'', JString ''Your code is 12345''),
                     (''code'', JString ''12345'')]])]"
  let ?r = "\<lparr>status = 200, data = ?body\<rparr>"
  let ?net = "\<lambda>(sent :: AxiosRequest list) (req :: AxiosRequest). Response ?r"
  let ?c = "new_FiveSimClient \<lparr>apiKey = ''test-api-key'', baseUrl = None, timeout = None\<rparr>"
  have h1: "?net [] (get_request (client ?c) (checkOrder_url (Integer 12345))) = Response ?r"
    by simp
  have h2: "200 \<le> status ?r" and h3: "status ?r < 300"
    by simp_all
  have h4: "first_sms_code (data ?r) = Some (JString ''12345'')"
    by (simp add: first_sms_code_def)
  from checkOrder_returns_body
    [where c = ?c and n = "Integer 12345" and net = ?net and sent = "[]" and r = ?r
       and code = "JString ''12345''"] h1 h2 h3 h4
  show ?thesis
    by simp
qed

section \<open>One request per call\<close>

text \<open>
  One invocation of any operation, whatever the network answers, adds exactly one
  request to those sent, and it is a GET: nothing is retried, sent twice or left out.
  A 2xx response fulfils the call with the body; any other response and a missing
  response reject it at once with what \<open>handleError\<close> returns or throws.
\<close>

lemma invoke_one_request:
  "snd (invoke c oper net sent) = sent @ [get_request (client c) (operation_url oper)]
   \<and> request_method (get_request (client c) (operation_url oper)) = ''GET''
   \<and> fst (invoke c oper net sent) =
       (case net sent (get_request (client c) (operation_url oper)) of
          Response r \<Rightarrow>
            if 200 \<le> status r \<and> status r < 300 then Inr (data r)
            else Inl (handleError
                   \<lparr>AxiosError.message =
                      ''Request failed with status code ''
                        @ Number_toString (Integer (status r)),
                    AxiosError.response = Some r\<rparr>)
        | NoResponse m \<Rightarrow>
            Inl (handleError \<lparr>AxiosError.message = m, AxiosError.response = None\<rparr>))"
  by (simp add: invoke_sent invoke_result settle_def get_request_def split: reply.splits)

text \<open>
  C9 fails on the code in its last part, that a failure is reported as a typed error.
  When the server answers 400 with a body whose \<open>message\<close> is a list of texts,
  every operation sends its one GET request and is then rejected with the
  \<open>TypeError\<close> thrown inside \<open>handleError\<close>, not with an error of the
  taxonomy.
\<close>

theorem invoke_rejects_with_TypeError:
  "invoke c oper
     (\<lambda>sent req. Response
        \<lparr>status = 400,
         data = JObject [(''message'', JArray [JString ''country is required''])]\<rparr>)
     sent
   = (Inl (Inl TypeError), sent @ [get_request (client c) (operation_url oper)])"
proof -
  let ?r = "\<lparr>status = 400,
         data = JObject [(''message'', JArray [JString ''country is required''])]\<rparr>"
  let ?net = "\<lambda>(sent :: AxiosRequest list) (req :: AxiosRequest). Response ?r"
  have thrown: "handleError \<lparr>AxiosError.message = m, AxiosError.response = Some ?r\<rparr>
      = Inl TypeError" for m
    by (simp add: handleError_def body_message_def js_or_def)
  have "fst (invoke c oper ?net sent) = Inl (Inl TypeError)"
    by (simp add: invoke_result settle_def thrown)
  moreover have "snd (invoke c oper ?net sent)
      = sent @ [get_request (client c) (operation_url oper)]"
    by (simp add: invoke_sent)
  ultimately show ?thesis
    by (simp add: prod_eq_iff)
qed

section \<open>The status code of an error\<close>

text \<open>
  An error that \<open>handleError\<close> returns for an HTTP error response has the status
  of that response as its \<open>statusCode\<close> (\<open>handleError_statusCode\<close>), and
  the error it returns for a request without a response has none
  (\<open>handleError_no_response\<close>). The four subclasses have the codes 401, 429, 503
  and 400, whatever their message.
\<close>

lemma subclass_statusCode:
  "map_sum id statusCode (new_AuthenticationError msg) = Inr (Some 401)
   \<and> map_sum id statusCode (new_RateLimitError msg) = Inr (Some 429)
   \<and> map_sum id statusCode (new_ServiceUnavailableError msg) = Inr (Some 503)
   \<and> map_sum id statusCode (new_NoNumbersError msg) = Inr (Some 400)"
  by (simp add: new_AuthenticationError_def new_RateLimitError_def
      new_ServiceUnavailableError_def new_NoNumbersError_def new_subclass_eq)

text \<open>
  C10 fails on the code: not every error that comes from an HTTP error response has a
  \<open>statusCode\<close>. For a 400 response with a body whose \<open>message\<close> is a list
  of texts the caller catches a \<open>TypeError\<close>; reading \<open>statusCode\<close> off it
  gives \<open>undefined\<close>, as it does for the error of a request without a response,
  so a missing \<open>statusCode\<close> does not tell the two apart.
\<close>

theorem caught_statusCode_undefined:
  "caught_statusCode
     (handleError
        \<lparr>AxiosError.message = ''Request failed with status code 400'',
         AxiosError.response =
           Some \<lparr>status = 400,
                 data = JObject [(''message'', JArray [JString ''country is required''])]\<rparr>\<rparr>)
     = None
   \<and> caught_statusCode
       (handleError \<lparr>AxiosError.message = ''Network Error'', AxiosError.response = None\<rparr>)
     = None"
  by (simp add: caught_statusCode_def handleError_def body_message_def js_or_def
      new_FiveSimError_string)

section \<open>A response whose message is not a string\<close>

text \<open>
  C1 fails on the code at a 400 response whose body is an object with a
  \<open>message\<close> that is truthy and not a string (here a list of texts): nothing is
  classified, \<open>toLowerCase\<close> throws a \<open>TypeError\<close>. The lemmas
  \<open>handleError_401\<close>, \<open>handleError_429\<close>, \<open>handleError_503\<close>,
  \<open>handleError_400_no_numbers\<close>, \<open>handleError_400_generic\<close> and
  \<open>handleError_other\<close> give the classification, and
  \<open>handleError_throws_iff\<close> the inputs on which it throws.
\<close>

theorem handleError_400_message_not_string:
  "handleError
     \<lparr>AxiosError.message = ''Request failed with status code 400'',
      AxiosError.response =
        Some \<lparr>status = 400,
              data = JObject [(''message'', JArray [JString ''country is required''])]\<rparr>\<rparr>
   = Inl TypeError"
  by (simp add: handleError_def body_message_def js_or_def)

text \<open>
  The other place where \<open>handleError\<close> throws: a status without a branch of its
  own and a \<open>message\<close> object with an own \<open>toString\<close> property, which the
  constructor cannot convert to a string.
\<close>

lemma handleError_500_message_without_conversion:
  "handleError
     \<lparr>AxiosError.message = ''Request failed with status code 500'',
      AxiosError.response =
        Some \<lparr>status = 500,
              data = JObject [(''message'', JObject [(''toString'', JNumber (Integer 1))])]\<rparr>\<rparr>
   = Inl TypeError"
  by (simp add: handleError_def body_message_def js_or_def new_FiveSimError_def)

end
